theory Spec2Isabelle
  imports Main
begin

section \<open>The Android shell holder: data model\<close>

text \<open>
  A shallow embedding of \<^verbatim>\<open>shell/platform/android/android_shell_holder.cc\<close>.
  The holder lives on the platform thread; it owns a thread host with three worker
  threads, a shell (the assembled engine) and a pthread key. Closures posted to task
  runners are defunctionalised into the datatype \<open>task\<close>: one constructor per lambda
  of the source, carrying the lambda's captures. Everything observable that the holder
  or one of its tasks does to a collaborator is appended to the \<open>trace\<close> of the world.
  A C++ member \<^verbatim>\<open>name_\<close> is the record field \<open>m_name\<close>.
\<close>

subsection \<open>Payloads handed through the holder\<close>

text \<open>Of \<^verbatim>\<open>blink::Settings\<close> this file reads one field only.\<close>

record Settings =
  enable_software_rendering :: bool

type_synonym JavaObjectWeakGlobalRef = nat

text \<open>The payloads are opaque to this file: it moves or copies them into a task.\<close>

datatype RunConfiguration = RunConfiguration string

datatype ViewportMetrics = ViewportMetrics "int list"

datatype PointerDataPacket = PointerDataPacket "nat list"

datatype ScreenshotType = SkiaPicture | UncompressedImage | CompressedImage

text \<open>\<^verbatim>\<open>Rasterizer::Screenshot\<close>: image bytes (a null \<^verbatim>\<open>sk_sp\<close> is \<open>None\<close>) and a
  frame size; \<^verbatim>\<open>SkISize::MakeEmpty()\<close> is \<open>(0, 0)\<close>.\<close>

record Rasterizer_Screenshot =
  data :: "nat list option"
  frame_size :: "int \<times> int"

subsection \<open>Threads, task runners, weak pointers\<close>

text \<open>The four message loops a holder deals with. \<open>Platform\<close> is the caller's own
  loop; the other three belong to worker threads of the thread host.\<close>

datatype runner = Platform | UI | GPU | IO

text \<open>A \<^verbatim>\<open>fml::WeakPtr\<close>: \<open>None\<close> when default-constructed, else the address of its
  target, which may have been destroyed since.\<close>

type_synonym weak_ptr = "nat option"

type_synonym pthread_key = nat

datatype task =
    JniExitTask pthread_key
  | GpuPriorityTask
  | UiPriorityTask
  | LaunchTask weak_ptr RunConfiguration
  | ViewportMetricsTask weak_ptr ViewportMetrics
  | PointerDataPacketTask weak_ptr "PointerDataPacket option"

record TaskRunners =
  label :: string
  GetPlatformTaskRunner :: runner
  GetGPUTaskRunner :: runner
  GetUITaskRunner :: runner
  GetIOTaskRunner :: runner

record ThreadHost =
  ui_thread :: "runner option"
  gpu_thread :: "runner option"
  io_thread :: "runner option"

record Shell =
  Shell_GetTaskRunners :: TaskRunners
  Shell_GetSettings :: Settings
  Shell_GetEngine :: weak_ptr
  Shell_owned :: "nat list"

record PlatformViewAndroid =
  pv_task_runners :: TaskRunners
  pv_java_object :: JavaObjectWeakGlobalRef
  pv_use_software_rendering :: bool

datatype object =
    PlatformViewObject PlatformViewAndroid
  | RasterizerObject TaskRunners
  | EngineObject

subsection \<open>The world outside the holder\<close>

datatype event =
    PthreadKeyCreate pthread_key
  | PthreadKeyDelete pthread_key
  | PthreadSetSpecific runner pthread_key
  | DetachFromVM runner
  | SetPriority runner int
  | LogError string
  | EngineRun RunConfiguration
  | EngineSetViewportMetrics ViewportMetrics
  | EngineDispatchPointerDataPacket PointerDataPacket
  | ShellScreenshot ScreenshotType bool
  | ShellDestroyed
  | ThreadJoined runner

record world =
  shell_count :: nat
  next_key :: pthread_key
  keys :: "pthread_key set"
  queues :: "runner \<Rightarrow> task list"
  running :: "runner set"
  specific :: "runner \<Rightarrow> pthread_key option"
  heap :: "nat \<rightharpoonup> object"
  next_obj :: nat
  trace :: "event list"

text \<open>What the holder cannot decide: the build flavour, the answers of the operating
  system, whether the engine can be assembled, and what the engine answers.\<close>

datatype assembly_outcome =
    AssemblyOk
  | AssemblyFailsBeforePlatformView
  | AssemblyFailsAfterPlatformView

record env =
  dchecks_enabled :: bool
  key_create_ok :: bool
  key_delete_ok :: bool
  setspecific_ok :: bool
  setpriority_ok :: "runner \<Rightarrow> int \<Rightarrow> bool"
  assembly :: assembly_outcome
  engine_run_ok :: "RunConfiguration \<Rightarrow> bool"
  shell_screenshot :: "ScreenshotType \<Rightarrow> bool \<Rightarrow> Rasterizer_Screenshot"

text \<open>Ways the process dies: a failed \<^verbatim>\<open>FXL_CHECK\<close>, a failed \<^verbatim>\<open>FXL_DCHECK\<close> in a
  build that has them, and the dereference of a null pointer.\<close>

datatype fatal = CheckFailed | DcheckFailed | NullDereference

definition and_then :: "fatal + 'a \<Rightarrow> ('a \<Rightarrow> fatal + 'b) \<Rightarrow> fatal + 'b" where
  "and_then m f = (case m of Inl e \<Rightarrow> Inl e | Inr x \<Rightarrow> f x)"

definition deref :: "'a option \<Rightarrow> fatal + 'a" where
  "deref p = (case p of None \<Rightarrow> Inl NullDereference | Some x \<Rightarrow> Inr x)"

definition FXL_CHECK :: "bool \<Rightarrow> fatal + unit" where
  "FXL_CHECK c = (if c then Inr () else Inl CheckFailed)"

definition FXL_DCHECK :: "env \<Rightarrow> bool \<Rightarrow> fatal + unit" where
  "FXL_DCHECK e c = (if dchecks_enabled e \<and> \<not> c then Inl DcheckFailed else Inr ())"

definition emit :: "event \<Rightarrow> world \<Rightarrow> world" where
  "emit ev w = w\<lparr>trace := trace w @ [ev]\<rparr>"

text \<open>Modelled from the spec: the weak reference registry (\<^verbatim>\<open>fml::WeakPtr\<close>, not in
  this file). A handle tests true exactly while its target is alive.\<close>

definition weak_valid :: "world \<Rightarrow> weak_ptr \<Rightarrow> bool" where
  "weak_valid w p = (case p of None \<Rightarrow> False | Some a \<Rightarrow> heap w a \<noteq> None)"

text \<open>Modelled from the spec: \<^verbatim>\<open>TaskRunner::PostTask\<close> (not in this file). The task
  goes to the end of the runner's queue; posting to a loop that has stopped is a
  silent no-op.\<close>

definition enqueue :: "runner \<Rightarrow> task \<Rightarrow> world \<Rightarrow> world" where
  "enqueue r t w = w\<lparr>queues := (queues w)(r := queues w r @ [t])\<rparr>"

definition PostTask :: "runner \<Rightarrow> task \<Rightarrow> world \<Rightarrow> world" where
  "PostTask r t w = (if r \<in> running w then enqueue r t w else w)"

text \<open>Modelled from the spec: the creation of the thread host (\<^verbatim>\<open>ThreadHost\<close>, not in
  this file). It starts one thread per requested role, each running a loop on an
  empty queue of its own.\<close>

definition ThreadHost_create :: "string \<Rightarrow> runner set \<Rightarrow> world \<Rightarrow> ThreadHost \<times> world" where
  "ThreadHost_create name roles w =
     (\<lparr>ui_thread = (if UI \<in> roles then Some UI else None),
       gpu_thread = (if GPU \<in> roles then Some GPU else None),
       io_thread = (if IO \<in> roles then Some IO else None)\<rparr>,
      w\<lparr>queues := (\<lambda>r. if r \<in> roles - {Platform} then [] else queues w r),
        running := running w \<union> (roles - {Platform}),
        specific := (\<lambda>r. if r \<in> roles - {Platform} then None else specific w r)\<rparr>)"

text \<open>\<^verbatim>\<open>fml::MessageLoop::EnsureInitializedForCurrentThread\<close>, called on the platform
  thread.\<close>

definition EnsureInitializedForCurrentThread :: "world \<Rightarrow> world" where
  "EnsureInitializedForCurrentThread w = w\<lparr>running := insert Platform (running w)\<rparr>"

subsection \<open>The pthread key and the thread-exit hook\<close>

text \<open>The three pthread calls return 0 on success. A key's destructor runs when a
  thread exits holding a non-null value for a key that still exists.\<close>

definition pthread_key_create :: "env \<Rightarrow> world \<Rightarrow> int \<times> pthread_key \<times> world" where
  "pthread_key_create e w =
     (if key_create_ok e
      then (0, next_key w,
            emit (PthreadKeyCreate (next_key w))
              (w\<lparr>keys := insert (next_key w) (keys w), next_key := Suc (next_key w)\<rparr>))
      else (11, next_key w, w))"

definition pthread_key_delete :: "env \<Rightarrow> pthread_key \<Rightarrow> world \<Rightarrow> int \<times> world" where
  "pthread_key_delete e k w =
     (if key_delete_ok e \<and> k \<in> keys w
      then (0, emit (PthreadKeyDelete k) (w\<lparr>keys := keys w - {k}\<rparr>))
      else (22, w))"

definition pthread_setspecific :: "env \<Rightarrow> runner \<Rightarrow> pthread_key \<Rightarrow> world \<Rightarrow> int \<times> world" where
  "pthread_setspecific e r k w =
     (if setspecific_ok e \<and> k \<in> keys w
      then (0, emit (PthreadSetSpecific r k) (w\<lparr>specific := (specific w)(r \<mapsto> k)\<rparr>))
      else (22, w))"

text \<open>The destructor registered with the key; \<open>r\<close> is the thread it runs on.\<close>

definition ThreadDestructCallback :: "runner \<Rightarrow> world \<Rightarrow> world" where
  "ThreadDestructCallback r w = emit (DetachFromVM r) w"

definition thread_exit :: "runner \<Rightarrow> world \<Rightarrow> world" where
  "thread_exit r w =
     (let w1 = (case specific w r of
                  None \<Rightarrow> w
                | Some k \<Rightarrow> if k \<in> keys w then ThreadDestructCallback r w else w)
      in emit (ThreadJoined r)
           (w1\<lparr>queues := (queues w1)(r := []),
               running := running w1 - {r},
               specific := (specific w1)(r := None)\<rparr>))"

text \<open>Modelled from the spec: \<^verbatim>\<open>ThreadHost::Reset\<close> (not in this file). It signals each
  worker loop to stop and joins the thread; what is still queued is dropped. An
  exiting thread runs the key's destructor as described above.\<close>

definition join_thread :: "runner option \<Rightarrow> world \<Rightarrow> world" where
  "join_thread t w = (case t of None \<Rightarrow> w | Some r \<Rightarrow> thread_exit r w)"

definition ThreadHost_Reset :: "ThreadHost \<Rightarrow> world \<Rightarrow> ThreadHost \<times> world" where
  "ThreadHost_Reset th w =
     (\<lparr>ui_thread = None, gpu_thread = None, io_thread = None\<rparr>,
      join_thread (io_thread th) (join_thread (gpu_thread th) (join_thread (ui_thread th) w)))"

subsection \<open>The shell\<close>

text \<open>The two factory callbacks the constructor hands to \<^verbatim>\<open>Shell::Create\<close>. The first
  also writes the local \<^verbatim>\<open>weak_platform_view\<close> it captured by reference: the second
  component is the value written.\<close>

definition on_create_platform_view ::
  "JavaObjectWeakGlobalRef \<Rightarrow> Shell \<Rightarrow> nat \<Rightarrow> PlatformViewAndroid \<times> weak_ptr" where
  "on_create_platform_view java_object shell addr =
     (let platform_view_android =
            \<lparr>pv_task_runners = Shell_GetTaskRunners shell,
             pv_java_object = java_object,
             pv_use_software_rendering = enable_software_rendering (Shell_GetSettings shell)\<rparr>
      in (platform_view_android, Some addr))"

definition on_create_rasterizer :: "Shell \<Rightarrow> TaskRunners" where
  "on_create_rasterizer shell = Shell_GetTaskRunners shell"

text \<open>Modelled from the spec: \<^verbatim>\<open>Shell::Create\<close> (not in this file). Each callback is
  invoked at most once; the assembled shell keeps the task runners and settings it was
  given and owns the platform view, the rasterizer and the engine. When the assembly
  fails nothing survives: a platform view already built is destroyed again, so the
  weak handle the callback stored is empty. The result is the shell or null, the value
  left in \<^verbatim>\<open>weak_platform_view\<close>, and the world.\<close>

definition Shell_Create ::
  "env \<Rightarrow> TaskRunners \<Rightarrow> Settings \<Rightarrow> (Shell \<Rightarrow> nat \<Rightarrow> PlatformViewAndroid \<times> weak_ptr)
     \<Rightarrow> (Shell \<Rightarrow> TaskRunners) \<Rightarrow> world \<Rightarrow> Shell option \<times> weak_ptr \<times> world" where
  "Shell_Create e task_runners settings create_platform_view create_rasterizer w =
     (let shell = \<lparr>Shell_GetTaskRunners = task_runners, Shell_GetSettings = settings,
                    Shell_GetEngine = None, Shell_owned = []\<rparr>;
          a = next_obj w
      in case assembly e of
           AssemblyFailsBeforePlatformView \<Rightarrow> (None, None, w)
         | AssemblyFailsAfterPlatformView \<Rightarrow>
             (let (pv, weak) = create_platform_view shell a
              in (None, weak, w\<lparr>heap := (heap w)(a := None), next_obj := a + 1\<rparr>))
         | AssemblyOk \<Rightarrow>
             (let (pv, weak) = create_platform_view shell a;
                  rasterizer = create_rasterizer shell
              in (Some (shell\<lparr>Shell_GetEngine := Some (a + 2), Shell_owned := [a, a + 1, a + 2]\<rparr>),
                  weak,
                  w\<lparr>heap := (heap w)(a \<mapsto> PlatformViewObject pv,
                                        a + 1 \<mapsto> RasterizerObject rasterizer,
                                        a + 2 \<mapsto> EngineObject),
                    next_obj := a + 3\<rparr>)))"

text \<open>Modelled from the spec: destroying the shell destroys what it owns, so every weak
  handle into it is empty from then on.\<close>

definition Shell_destroy :: "Shell \<Rightarrow> world \<Rightarrow> world" where
  "Shell_destroy shell w =
     emit ShellDestroyed
       (w\<lparr>heap := (\<lambda>a. if a \<in> set (Shell_owned shell) then None else heap w a)\<rparr>)"

text \<open>Modelled from the spec: the entry points of the shell and of the engine that the
  holder and its closures call (not in this file). Each call leaves its mark in the
  trace; what \<open>Screenshot\<close> and \<open>Run\<close> answer is a parameter.\<close>

definition Shell_Screenshot ::
  "env \<Rightarrow> ScreenshotType \<Rightarrow> bool \<Rightarrow> world \<Rightarrow> Rasterizer_Screenshot \<times> world" where
  "Shell_Screenshot e type base64_encode w =
     (shell_screenshot e type base64_encode, emit (ShellScreenshot type base64_encode) w)"

definition Engine_Run :: "env \<Rightarrow> RunConfiguration \<Rightarrow> world \<Rightarrow> bool \<times> world" where
  "Engine_Run e config w = (engine_run_ok e config, emit (EngineRun config) w)"

definition Engine_SetViewportMetrics :: "ViewportMetrics \<Rightarrow> world \<Rightarrow> world" where
  "Engine_SetViewportMetrics metrics w = emit (EngineSetViewportMetrics metrics) w"

definition Engine_DispatchPointerDataPacket :: "PointerDataPacket \<Rightarrow> world \<Rightarrow> world" where
  "Engine_DispatchPointerDataPacket packet w = emit (EngineDispatchPointerDataPacket packet) w"

text \<open>\<^verbatim>\<open>setpriority(PRIO_PROCESS, tid, prio)\<close>: 0 when the system accepts the level.\<close>

definition setpriority :: "env \<Rightarrow> runner \<Rightarrow> int \<Rightarrow> world \<Rightarrow> int \<times> world" where
  "setpriority e tid prio w =
     ((if setpriority_ok e tid prio then 0 else - 1), emit (SetPriority tid prio) w)"

section \<open>The holder\<close>

record holder =
  m_settings :: Settings
  m_java_object :: JavaObjectWeakGlobalRef
  m_platform_view :: weak_ptr
  m_thread_host :: ThreadHost
  m_shell :: "Shell option"
  m_is_valid :: bool
  m_thread_destruct_key :: pthread_key

type_synonym state = "holder \<times> world"

text \<open>\<^verbatim>\<open>std::to_string\<close> on the shell counter, for the thread label.\<close>

fun to_string :: "nat \<Rightarrow> string" where
  "to_string n =
     (if n < 10 then [char_of (48 + n)]
      else to_string (n div 10) @ [char_of (48 + n mod 10)])"

declare to_string.simps [simp del]

subsection \<open>Construction\<close>

definition AndroidShellHolder ::
  "env \<Rightarrow> Settings \<Rightarrow> JavaObjectWeakGlobalRef \<Rightarrow> world \<Rightarrow> fatal + state" where
  "AndroidShellHolder e settings java_object w0 =
     (let thread_label = to_string (shell_count w0);
          w1 = w0\<lparr>shell_count := shell_count w0 + 1\<rparr>;
          (rc, thread_destruct_key, w2) = pthread_key_create e w1
      in and_then (FXL_CHECK (rc = 0)) (\<lambda>_.
         let (thread_host, w3) = ThreadHost_create thread_label {UI, GPU, IO} w2;
             jni_exit_task = JniExitTask thread_destruct_key
         in and_then (deref (ui_thread thread_host)) (\<lambda>ui.
            let w4 = PostTask ui jni_exit_task w3
            in and_then (deref (gpu_thread thread_host)) (\<lambda>gpu.
               let w5 = PostTask gpu jni_exit_task w4;
                   w6 = EnsureInitializedForCurrentThread w5
               in and_then (deref (io_thread thread_host)) (\<lambda>io.
                  let task_runners =
                        \<lparr>label = thread_label,
                         GetPlatformTaskRunner = Platform,
                         GetGPUTaskRunner = gpu,
                         GetUITaskRunner = ui,
                         GetIOTaskRunner = io\<rparr>;
                      (shell, weak_platform_view, w7) =
                        Shell_Create e task_runners settings
                          (on_create_platform_view java_object) on_create_rasterizer w6;
                      platform_view = weak_platform_view
                  in and_then (FXL_DCHECK e (weak_valid w7 platform_view)) (\<lambda>_.
                     let is_valid = (shell \<noteq> None);
                         w8 = (if is_valid
                               then PostTask (GetUITaskRunner task_runners) UiPriorityTask
                                      (PostTask (GetGPUTaskRunner task_runners) GpuPriorityTask w7)
                               else w7)
                     in Inr (\<lparr>m_settings = settings,
                              m_java_object = java_object,
                              m_platform_view = platform_view,
                              m_thread_host = thread_host,
                              m_shell = shell,
                              m_is_valid = is_valid,
                              m_thread_destruct_key = thread_destruct_key\<rparr>, w8)))))))"

subsection \<open>The posted closures\<close>

text \<open>\<open>run_task e tid t w\<close> is the body of the closure \<open>t\<close> run on the thread \<open>tid\<close>.\<close>

fun run_task :: "env \<Rightarrow> runner \<Rightarrow> task \<Rightarrow> world \<Rightarrow> fatal + world" where
  "run_task e tid (JniExitTask key) w =
     (let (rc, w1) = pthread_setspecific e tid key w
      in and_then (FXL_CHECK (rc = 0)) (\<lambda>_. Inr w1))"
| "run_task e tid GpuPriorityTask w =
     (let (rc1, w1) = setpriority e tid (- 5) w
      in if rc1 \<noteq> 0
         then (let (rc2, w2) = setpriority e tid (- 2) w1
               in if rc2 \<noteq> 0
                  then Inr (emit (LogError ''Failed to set GPU task runner priority'') w2)
                  else Inr w2)
         else Inr w1)"
| "run_task e tid UiPriorityTask w =
     (let (rc, w1) = setpriority e tid (- 1) w
      in if rc \<noteq> 0
         then Inr (emit (LogError ''Failed to set UI task runner priority'') w1)
         else Inr w1)"
| "run_task e tid (LaunchTask engine config) w =
     (if weak_valid w engine
      then (let (ok, w1) = Engine_Run e config w
            in if \<not> ok
               then Inr (emit (LogError ''Could not launch engine in configuration.'') w1)
               else Inr w1)
      else Inr w)"
| "run_task e tid (ViewportMetricsTask engine metrics) w =
     (if weak_valid w engine then Inr (Engine_SetViewportMetrics metrics w) else Inr w)"
| "run_task e tid (PointerDataPacketTask engine packet) w =
     (if weak_valid w engine
      then and_then (deref packet) (\<lambda>p. Inr (Engine_DispatchPointerDataPacket p w))
      else Inr w)"

subsection \<open>The public operations\<close>

definition IsValid :: "holder \<Rightarrow> bool" where
  "IsValid h = m_is_valid h"

definition GetSettings :: "holder \<Rightarrow> Settings" where
  "GetSettings h = m_settings h"

definition Launch :: "RunConfiguration \<Rightarrow> state \<Rightarrow> fatal + state" where
  "Launch config s =
     (case s of (h, w) \<Rightarrow>
        if \<not> IsValid h then Inr (h, w)
        else and_then (deref (m_shell h)) (\<lambda>shell.
          Inr (h, PostTask (GetUITaskRunner (Shell_GetTaskRunners shell))
                    (LaunchTask (Shell_GetEngine shell) config) w)))"

definition SetViewportMetrics :: "ViewportMetrics \<Rightarrow> state \<Rightarrow> fatal + state" where
  "SetViewportMetrics metrics s =
     (case s of (h, w) \<Rightarrow>
        if \<not> IsValid h then Inr (h, w)
        else and_then (deref (m_shell h)) (\<lambda>shell.
          Inr (h, PostTask (GetUITaskRunner (Shell_GetTaskRunners shell))
                    (ViewportMetricsTask (Shell_GetEngine shell) metrics) w)))"

definition DispatchPointerDataPacket :: "PointerDataPacket option \<Rightarrow> state \<Rightarrow> fatal + state" where
  "DispatchPointerDataPacket packet s =
     (case s of (h, w) \<Rightarrow>
        if \<not> IsValid h then Inr (h, w)
        else and_then (deref (m_shell h)) (\<lambda>shell.
          Inr (h, PostTask (GetUITaskRunner (Shell_GetTaskRunners shell))
                    (PointerDataPacketTask (Shell_GetEngine shell) packet) w)))"

definition Screenshot ::
  "env \<Rightarrow> ScreenshotType \<Rightarrow> bool \<Rightarrow> state \<Rightarrow> fatal + Rasterizer_Screenshot \<times> state" where
  "Screenshot e type base64_encode s =
     (case s of (h, w) \<Rightarrow>
        if \<not> IsValid h then Inr (\<lparr>data = None, frame_size = (0, 0)\<rparr>, (h, w))
        else and_then (deref (m_shell h)) (\<lambda>shell.
          let (result, w1) = Shell_Screenshot e type base64_encode w
          in Inr (result, (h, w1))))"

definition GetPlatformView :: "env \<Rightarrow> state \<Rightarrow> fatal + weak_ptr" where
  "GetPlatformView e s =
     (case s of (h, w) \<Rightarrow>
        and_then (FXL_DCHECK e (weak_valid w (m_platform_view h))) (\<lambda>_.
          Inr (m_platform_view h)))"

subsection \<open>Destruction\<close>

text \<open>The three statements of the destructor, in the order of the source.\<close>

definition shell_reset :: "state \<Rightarrow> state" where
  "shell_reset s =
     (case s of (h, w) \<Rightarrow>
        (h\<lparr>m_shell := None\<rparr>,
         (case m_shell h of None \<Rightarrow> w | Some shell \<Rightarrow> Shell_destroy shell w)))"

definition thread_host_Reset :: "state \<Rightarrow> state" where
  "thread_host_Reset s =
     (case s of (h, w) \<Rightarrow>
        (let (th, w1) = ThreadHost_Reset (m_thread_host h) w
         in (h\<lparr>m_thread_host := th\<rparr>, w1)))"

definition key_delete :: "env \<Rightarrow> state \<Rightarrow> fatal + state" where
  "key_delete e s =
     (case s of (h, w) \<Rightarrow>
        (let (rc, w1) = pthread_key_delete e (m_thread_destruct_key h) w
         in and_then (FXL_CHECK (rc = 0)) (\<lambda>_. Inr (h, w1))))"

definition destructor :: "env \<Rightarrow> state \<Rightarrow> fatal + state" where
  "destructor e s =
     (let s1 = shell_reset s;
          s2 = thread_host_Reset s1
      in key_delete e s2)"

subsection \<open>Runs: calls of the host interleaved with the workers' loops\<close>

datatype call =
    CallLaunch RunConfiguration
  | CallSetViewportMetrics ViewportMetrics
  | CallDispatchPointerDataPacket "PointerDataPacket option"
  | CallScreenshot ScreenshotType bool
  | CallGetPlatformView
  | CallIsValid
  | CallGetSettings
  | RunNextTask runner

text \<open>A running loop takes the task at the head of its queue and runs it.\<close>

definition run_next_task :: "env \<Rightarrow> runner \<Rightarrow> state \<Rightarrow> fatal + state" where
  "run_next_task e r s =
     (case s of (h, w) \<Rightarrow>
        (case queues w r of
           [] \<Rightarrow> Inr (h, w)
         | t # ts \<Rightarrow>
             if r \<in> running w
             then and_then (run_task e r t (w\<lparr>queues := (queues w)(r := ts)\<rparr>))
                    (\<lambda>w1. Inr (h, w1))
             else Inr (h, w)))"

fun step :: "env \<Rightarrow> call \<Rightarrow> state \<Rightarrow> fatal + state" where
  "step e (CallLaunch config) s = Launch config s"
| "step e (CallSetViewportMetrics metrics) s = SetViewportMetrics metrics s"
| "step e (CallDispatchPointerDataPacket packet) s = DispatchPointerDataPacket packet s"
| "step e (CallScreenshot type base64_encode) s =
     and_then (Screenshot e type base64_encode s) (\<lambda>(result, s1). Inr s1)"
| "step e CallGetPlatformView s = and_then (GetPlatformView e s) (\<lambda>_. Inr s)"
| "step e CallIsValid s = Inr s"
| "step e CallGetSettings s = Inr s"
| "step e (RunNextTask r) s = run_next_task e r s"

fun run_calls :: "env \<Rightarrow> call list \<Rightarrow> state \<Rightarrow> fatal + state" where
  "run_calls e [] s = Inr s"
| "run_calls e (c # cs) s = and_then (step e c s) (run_calls e cs)"

text \<open>The process before the first holder is built: the static counter is 1, nothing
  is allocated, only the caller's thread exists.\<close>

definition initial_world :: world where
  "initial_world =
     \<lparr>shell_count = 1, next_key = 0, keys = {}, queues = (\<lambda>_. []), running = {Platform},
      specific = (\<lambda>_. None), heap = Map.empty, next_obj = 0, trace = []\<rparr>"

section \<open>Vocabulary of the properties\<close>

fun is_jni_exit_task :: "task \<Rightarrow> bool" where
  "is_jni_exit_task (JniExitTask key) = True"
| "is_jni_exit_task t = False"

text \<open>The events that mark the three statements of the destructor.\<close>

fun is_teardown_step :: "event \<Rightarrow> bool" where
  "is_teardown_step ShellDestroyed = True"
| "is_teardown_step (ThreadJoined r) = True"
| "is_teardown_step (PthreadKeyDelete k) = True"
| "is_teardown_step ev = False"

text \<open>The four operations that start with the validity guard.\<close>

fun is_guarded_operation :: "call \<Rightarrow> bool" where
  "is_guarded_operation (CallLaunch config) = True"
| "is_guarded_operation (CallSetViewportMetrics metrics) = True"
| "is_guarded_operation (CallDispatchPointerDataPacket packet) = True"
| "is_guarded_operation (CallScreenshot type base64_encode) = True"
| "is_guarded_operation c = False"

text \<open>What the constructor leaves behind when it returns; used in the proofs below.\<close>

definition ctor_post :: "env \<Rightarrow> Settings \<Rightarrow> world \<Rightarrow> state \<Rightarrow> bool" where
  "ctor_post e settings w0 s =
     (case s of (h, w) \<Rightarrow>
        m_thread_host h = \<lparr>ui_thread = Some UI, gpu_thread = Some GPU, io_thread = Some IO\<rparr>
      \<and> m_is_valid h = (assembly e = AssemblyOk)
      \<and> m_thread_destruct_key h = next_key w0
      \<and> m_settings h = settings
      \<and> running w = insert Platform (insert UI (insert GPU (insert IO (running w0))))
      \<and> keys w = insert (next_key w0) (keys w0)
      \<and> trace w = trace w0 @ [PthreadKeyCreate (next_key w0)]
      \<and> queues w UI =
          JniExitTask (next_key w0) # (if assembly e = AssemblyOk then [UiPriorityTask] else [])
      \<and> queues w GPU =
          JniExitTask (next_key w0) # (if assembly e = AssemblyOk then [GpuPriorityTask] else [])
      \<and> queues w IO = []
      \<and> queues w Platform = queues w0 Platform
      \<and> (case m_shell h of
            None \<Rightarrow> assembly e \<noteq> AssemblyOk \<and> \<not> weak_valid w (m_platform_view h)
          | Some shell \<Rightarrow>
              assembly e = AssemblyOk
            \<and> Shell_GetTaskRunners shell =
                \<lparr>label = to_string (shell_count w0), GetPlatformTaskRunner = Platform,
                 GetGPUTaskRunner = GPU, GetUITaskRunner = UI, GetIOTaskRunner = IO\<rparr>
            \<and> Shell_GetSettings shell = settings
            \<and> Shell_GetEngine shell = Some (next_obj w0 + 2)
            \<and> Shell_owned shell = [next_obj w0, next_obj w0 + 1, next_obj w0 + 2]
            \<and> m_platform_view h = Some (next_obj w0)
            \<and> heap w (next_obj w0) \<noteq> None
            \<and> heap w (next_obj w0 + 2) \<noteq> None))"

subsection \<open>Concrete runs\<close>

definition sample_settings :: Settings where
  "sample_settings = \<lparr>enable_software_rendering = False\<rparr>"

definition sample_config :: RunConfiguration where
  "sample_config = RunConfiguration ''main''"

text \<open>A debug build on a device that lets the engine be assembled but rejects every
  priority request.\<close>

definition debug_env :: env where
  "debug_env =
     \<lparr>dchecks_enabled = True, key_create_ok = True, key_delete_ok = True,
      setspecific_ok = True, setpriority_ok = (\<lambda>tid prio. False), assembly = AssemblyOk,
      engine_run_ok = (\<lambda>config. True),
      shell_screenshot = (\<lambda>type base64_encode. \<lparr>data = Some [137, 80], frame_size = (2, 1)\<rparr>)\<rparr>"

text \<open>A release build in which the rasterizer cannot be created.\<close>

definition release_env :: env where
  "release_env =
     \<lparr>dchecks_enabled = False, key_create_ok = True, key_delete_ok = True,
      setspecific_ok = True, setpriority_ok = (\<lambda>tid prio. True),
      assembly = AssemblyFailsAfterPlatformView,
      engine_run_ok = (\<lambda>config. True),
      shell_screenshot = (\<lambda>type base64_encode. \<lparr>data = Some [137, 80], frame_size = (2, 1)\<rparr>)\<rparr>"

definition sample_runners :: TaskRunners where
  "sample_runners =
     \<lparr>label = ''1'', GetPlatformTaskRunner = Platform, GetGPUTaskRunner = GPU,
      GetUITaskRunner = UI, GetIOTaskRunner = IO\<rparr>"

definition sample_shell :: Shell where
  "sample_shell =
     \<lparr>Shell_GetTaskRunners = sample_runners, Shell_GetSettings = sample_settings,
      Shell_GetEngine = Some 2, Shell_owned = [0, 1, 2]\<rparr>"

text \<open>The holder and the world after \<open>AndroidShellHolder debug_env sample_settings 7\<close>
  in the initial world.\<close>

definition valid_holder :: holder where
  "valid_holder =
     \<lparr>m_settings = sample_settings, m_java_object = 7, m_platform_view = Some 0,
      m_thread_host = \<lparr>ui_thread = Some UI, gpu_thread = Some GPU, io_thread = Some IO\<rparr>,
      m_shell = Some sample_shell, m_is_valid = True, m_thread_destruct_key = 0\<rparr>"

definition valid_world :: world where
  "valid_world =
     \<lparr>shell_count = 2, next_key = 1, keys = {0},
      queues = (\<lambda>r. if r = UI then [JniExitTask 0, UiPriorityTask]
                    else if r = GPU then [JniExitTask 0, GpuPriorityTask] else []),
      running = {Platform, UI, GPU, IO},
      specific = (\<lambda>r. None),
      heap = [0 \<mapsto> PlatformViewObject
                      \<lparr>pv_task_runners = sample_runners, pv_java_object = 7,
                       pv_use_software_rendering = False\<rparr>,
              1 \<mapsto> RasterizerObject sample_runners,
              2 \<mapsto> EngineObject],
      next_obj = 3,
      trace = [PthreadKeyCreate 0]\<rparr>"

text \<open>The same after \<open>AndroidShellHolder release_env sample_settings 7\<close>.\<close>

definition invalid_holder :: holder where
  "invalid_holder =
     \<lparr>m_settings = sample_settings, m_java_object = 7, m_platform_view = Some 0,
      m_thread_host = \<lparr>ui_thread = Some UI, gpu_thread = Some GPU, io_thread = Some IO\<rparr>,
      m_shell = None, m_is_valid = False, m_thread_destruct_key = 0\<rparr>"

definition invalid_world :: world where
  "invalid_world =
     \<lparr>shell_count = 2, next_key = 1, keys = {0},
      queues = (\<lambda>r. if r = UI then [JniExitTask 0]
                    else if r = GPU then [JniExitTask 0] else []),
      running = {Platform, UI, GPU, IO},
      specific = (\<lambda>r. None),
      heap = Map.empty,
      next_obj = 1,
      trace = [PthreadKeyCreate 0]\<rparr>"

text \<open>A run on the valid holder: the host calls \<open>Launch\<close>, then the GPU loop runs its
  two tasks; and the world it ends in.\<close>

definition sample_calls :: "call list" where
  "sample_calls = [CallLaunch sample_config, RunNextTask GPU, RunNextTask GPU]"

definition ran_world :: world where
  "ran_world =
     valid_world
       \<lparr>queues := (\<lambda>r. if r = UI
                       then [JniExitTask 0, UiPriorityTask, LaunchTask (Some 2) sample_config]
                       else []),
        specific := (\<lambda>r. if r = GPU then Some 0 else None),
        trace := [PthreadKeyCreate 0, PthreadSetSpecific GPU 0, SetPriority GPU (- 5),
                  SetPriority GPU (- 2), LogError ''Failed to set GPU task runner priority'']\<rparr>"

text \<open>The holder and the world after the destructor has run on that state.\<close>

definition torn_holder :: holder where
  "torn_holder =
     valid_holder\<lparr>m_shell := None,
       m_thread_host := \<lparr>ui_thread = None, gpu_thread = None, io_thread = None\<rparr>\<rparr>"

definition torn_world :: world where
  "torn_world =
     ran_world
       \<lparr>keys := {}, queues := (\<lambda>r. []), running := {Platform}, specific := (\<lambda>r. None),
        heap := Map.empty,
        trace := trace ran_world @
          [ShellDestroyed, ThreadJoined UI, DetachFromVM GPU, ThreadJoined GPU, ThreadJoined IO,
           PthreadKeyDelete 0]\<rparr>"

section \<open>What construction establishes\<close>

lemmas ctor_defs = AndroidShellHolder_def pthread_key_create_def ThreadHost_create_def
  PostTask_def enqueue_def EnsureInitializedForCurrentThread_def Shell_Create_def on_create_platform_view_def
  on_create_rasterizer_def and_then_def deref_def FXL_CHECK_def FXL_DCHECK_def emit_def weak_valid_def

lemma ctor_abort_key:
  "\<not> key_create_ok e \<Longrightarrow> AndroidShellHolder e settings java_object w0 = Inl CheckFailed"
  by (simp add: ctor_defs)

lemma ctor_abort_dcheck:
  "key_create_ok e \<Longrightarrow> assembly e \<noteq> AssemblyOk \<Longrightarrow> dchecks_enabled e \<Longrightarrow>
   AndroidShellHolder e settings java_object w0 = Inl DcheckFailed"
  by (cases "assembly e") (simp_all add: ctor_defs Let_def)

lemma ctor_returns:
  "key_create_ok e \<Longrightarrow> assembly e = AssemblyOk \<or> \<not> dchecks_enabled e \<Longrightarrow>
   \<exists>s. AndroidShellHolder e settings java_object w0 = Inr s \<and> ctor_post e settings w0 s"
  by (cases "assembly e") (simp_all add: ctor_defs ctor_post_def Let_def)

lemma ctor_facts:
  assumes "AndroidShellHolder e settings java_object w0 = Inr s"
  shows "key_create_ok e" and "assembly e = AssemblyOk \<or> \<not> dchecks_enabled e"
    and "ctor_post e settings w0 s"
proof -
  show k: "key_create_ok e"
    using assms ctor_abort_key [of e settings java_object w0] by (cases "key_create_ok e") simp_all
  show d: "assembly e = AssemblyOk \<or> \<not> dchecks_enabled e"
    using assms k ctor_abort_dcheck [of e settings java_object w0] by fastforce
  show "ctor_post e settings w0 s"
    using ctor_returns [OF k d, of settings java_object w0] assms by fastforce
qed

lemma to_string_1: "to_string (Suc 0) = ''1''"
  by code_simp

lemma ctor_debug_env:
  "AndroidShellHolder debug_env sample_settings 7 initial_world = Inr (valid_holder, valid_world)"
  by (simp add: ctor_defs Let_def debug_env_def initial_world_def valid_holder_def valid_world_def
      sample_shell_def sample_runners_def sample_settings_def to_string_1 fun_eq_iff insert_commute)

lemma ctor_release_env:
  "AndroidShellHolder release_env sample_settings 7 initial_world = Inr (invalid_holder, invalid_world)"
  by (simp add: ctor_defs Let_def release_env_def initial_world_def invalid_holder_def
      invalid_world_def sample_settings_def to_string_1 fun_eq_iff insert_commute)


section \<open>What a run leaves untouched\<close>

text \<open>No call of the host and no posted closure changes the holder, the heap, the set
  of running loops or the set of keys.\<close>

lemma run_task_frame:
  assumes "run_task e tid t w = Inr w'"
  shows "heap w' = heap w \<and> running w' = running w \<and> keys w' = keys w \<and> queues w' = queues w"
proof (cases t)
  case (JniExitTask key)
  with assms show ?thesis
    by (auto simp: pthread_setspecific_def emit_def and_then_def FXL_CHECK_def split: if_splits)
next
  case GpuPriorityTask
  with assms show ?thesis by (auto simp: setpriority_def emit_def split: if_splits)
next
  case UiPriorityTask
  with assms show ?thesis by (auto simp: setpriority_def emit_def split: if_splits)
next
  case (LaunchTask engine config)
  with assms show ?thesis by (auto simp: Engine_Run_def emit_def split: if_splits)
next
  case (ViewportMetricsTask engine metrics)
  with assms show ?thesis by (auto simp: Engine_SetViewportMetrics_def emit_def split: if_splits)
next
  case (PointerDataPacketTask engine packet)
  with assms show ?thesis
    by (auto simp: Engine_DispatchPointerDataPacket_def emit_def and_then_def deref_def
        split: if_splits option.splits)
qed

lemma Launch_frame:
  assumes "Launch config (h, w) = Inr (h', w')"
  shows "h' = h" and "heap w' = heap w" and "running w' = running w" and "keys w' = keys w"
  using assms
  by (auto simp: Launch_def PostTask_def enqueue_def and_then_def deref_def split: if_splits option.splits)

lemma SetViewportMetrics_frame:
  assumes "SetViewportMetrics metrics (h, w) = Inr (h', w')"
  shows "h' = h" and "heap w' = heap w" and "running w' = running w" and "keys w' = keys w"
  using assms
  by (auto simp: SetViewportMetrics_def PostTask_def enqueue_def and_then_def deref_def
      split: if_splits option.splits)

lemma DispatchPointerDataPacket_frame:
  assumes "DispatchPointerDataPacket packet (h, w) = Inr (h', w')"
  shows "h' = h" and "heap w' = heap w" and "running w' = running w" and "keys w' = keys w"
  using assms
  by (auto simp: DispatchPointerDataPacket_def PostTask_def enqueue_def and_then_def deref_def
      split: if_splits option.splits)

lemma Screenshot_frame:
  assumes "Screenshot e type b (h, w) = Inr (res, (h', w'))"
  shows "h' = h" and "heap w' = heap w" and "running w' = running w" and "keys w' = keys w"
    and "queues w' = queues w"
  using assms
  by (auto simp: Screenshot_def Shell_Screenshot_def emit_def and_then_def deref_def
      split: if_splits option.splits)

lemma run_next_task_frame:
  assumes "run_next_task e r (h, w) = Inr (h', w')"
  shows "h' = h \<and> heap w' = heap w \<and> running w' = running w \<and> keys w' = keys w"
proof (cases "queues w r")
  case Nil
  with assms show ?thesis by (simp add: run_next_task_def)
next
  case (Cons t ts)
  show ?thesis
  proof (cases "r \<in> running w")
    case False
    with assms Cons show ?thesis by (simp add: run_next_task_def)
  next
    case True
    with assms Cons have "run_task e r t (w\<lparr>queues := (queues w)(r := ts)\<rparr>) = Inr w'" and "h' = h"
      by (auto simp: run_next_task_def and_then_def split: sum.splits)
    with run_task_frame [of e r t "w\<lparr>queues := (queues w)(r := ts)\<rparr>" w'] show ?thesis
      by simp
  qed
qed

lemma step_frame:
  assumes "step e c (h, w) = Inr (h', w')"
  shows "h' = h \<and> heap w' = heap w \<and> running w' = running w \<and> keys w' = keys w"
proof (cases c)
  case (CallLaunch config)
  with assms Launch_frame [of config h w h' w'] show ?thesis by simp
next
  case (CallSetViewportMetrics metrics)
  with assms SetViewportMetrics_frame [of metrics h w h' w'] show ?thesis by simp
next
  case (CallDispatchPointerDataPacket packet)
  with assms DispatchPointerDataPacket_frame [of packet h w h' w'] show ?thesis by simp
next
  case (CallScreenshot type b)
  with assms obtain res where "Screenshot e type b (h, w) = Inr (res, (h', w'))"
    by (auto simp: and_then_def split: sum.splits)
  from Screenshot_frame(1-4) [OF this] show ?thesis by simp
next
  case CallGetPlatformView
  with assms show ?thesis by (auto simp: and_then_def split: sum.splits)
next
  case CallIsValid
  with assms show ?thesis by simp
next
  case CallGetSettings
  with assms show ?thesis by simp
next
  case (RunNextTask r)
  with assms run_next_task_frame [of e r h w h' w'] show ?thesis by simp
qed

lemma run_calls_frame:
  "run_calls e cs (h, w) = Inr (h', w') \<Longrightarrow>
   h' = h \<and> heap w' = heap w \<and> running w' = running w \<and> keys w' = keys w"
proof (induction cs arbitrary: h w)
  case Nil
  then show ?case by simp
next
  case (Cons c cs)
  from Cons.prems obtain h1 w1 where s: "step e c (h, w) = Inr (h1, w1)"
    and r: "run_calls e cs (h1, w1) = Inr (h', w')"
    by (auto simp: and_then_def split: sum.splits)
  from step_frame [OF s] Cons.IH [OF r] show ?case by simp
qed


section \<open>States reached from a constructed holder\<close>

lemma alive_after_run:
  assumes ctor: "AndroidShellHolder e settings java_object w0 = Inr s0"
    and run: "run_calls e cs s0 = Inr (h, w)"
  shows "ctor_post e settings w0 s0" and "h = fst s0" and "heap w = heap (snd s0)"
    and "running w = running (snd s0)" and "keys w = keys (snd s0)"
proof -
  show "ctor_post e settings w0 s0" using ctor by (rule ctor_facts(3))
  obtain h0 w1 where s0: "s0 = (h0, w1)" by (cases s0)
  from run_calls_frame [of e cs h0 w1 h w] run s0
  show "h = fst s0" "heap w = heap (snd s0)" "running w = running (snd s0)" "keys w = keys (snd s0)"
    by simp_all
qed

lemma valid_after_run:
  assumes ctor: "AndroidShellHolder e settings java_object w0 = Inr s0"
    and run: "run_calls e cs s0 = Inr (h, w)"
    and valid: "IsValid h"
  shows "\<exists>shell. m_shell h = Some shell
           \<and> GetUITaskRunner (Shell_GetTaskRunners shell) = UI
           \<and> Shell_GetEngine shell = Some (next_obj w0 + 2)
           \<and> Shell_owned shell = [next_obj w0, next_obj w0 + 1, next_obj w0 + 2]
           \<and> m_platform_view h = Some (next_obj w0)
           \<and> heap w (next_obj w0) \<noteq> None
           \<and> heap w (next_obj w0 + 2) \<noteq> None"
    and "UI \<in> running w"
proof -
  obtain h0 w1 where s0: "s0 = (h0, w1)" by (cases s0)
  note a = alive_after_run [OF ctor run]
  from a(2) s0 have h: "h = h0" by simp
  from a(1) s0 valid h have ok: "assembly e = AssemblyOk"
    by (simp add: ctor_post_def IsValid_def)
  from a(1) s0 ok obtain shell where "m_shell h0 = Some shell"
    by (cases "m_shell h0") (auto simp: ctor_post_def)
  with a(1) a(3) s0 h
  show "\<exists>shell. m_shell h = Some shell
           \<and> GetUITaskRunner (Shell_GetTaskRunners shell) = UI
           \<and> Shell_GetEngine shell = Some (next_obj w0 + 2)
           \<and> Shell_owned shell = [next_obj w0, next_obj w0 + 1, next_obj w0 + 2]
           \<and> m_platform_view h = Some (next_obj w0)
           \<and> heap w (next_obj w0) \<noteq> None
           \<and> heap w (next_obj w0 + 2) \<noteq> None"
    by (simp add: ctor_post_def)
  from a(1) a(4) s0 show "UI \<in> running w" by (simp add: ctor_post_def)
qed

lemma guarded_operations_when_valid:
  assumes "IsValid h" and "m_shell h = Some shell"
    and "GetUITaskRunner (Shell_GetTaskRunners shell) = UI" and "UI \<in> running w"
  shows "Launch config (h, w) = Inr (h, enqueue UI (LaunchTask (Shell_GetEngine shell) config) w)"
    and "SetViewportMetrics metrics (h, w) =
           Inr (h, enqueue UI (ViewportMetricsTask (Shell_GetEngine shell) metrics) w)"
    and "DispatchPointerDataPacket packet (h, w) =
           Inr (h, enqueue UI (PointerDataPacketTask (Shell_GetEngine shell) packet) w)"
  using assms
  by (simp_all add: Launch_def SetViewportMetrics_def DispatchPointerDataPacket_def
      PostTask_def and_then_def deref_def)

lemma ctor_post_shell:
  "ctor_post e settings w0 (h, w) \<Longrightarrow>
   m_is_valid h = (m_shell h \<noteq> None) \<and> (m_shell h \<noteq> None) = (assembly e = AssemblyOk)"
  by (cases "m_shell h") (auto simp: ctor_post_def)

lemma guarded_step_when_invalid:
  "\<not> IsValid h \<Longrightarrow> is_guarded_operation c \<Longrightarrow> step e c (h, w) = Inr (h, w)"
  by (cases c)
     (simp_all add: Launch_def SetViewportMetrics_def DispatchPointerDataPacket_def
        Screenshot_def and_then_def)

lemma guarded_calls_when_invalid:
  "\<not> IsValid h \<Longrightarrow> list_all is_guarded_operation cs \<Longrightarrow> run_calls e cs (h, w) = Inr (h, w)"
  by (induction cs) (simp_all add: guarded_step_when_invalid and_then_def)

lemma sample_run:
  "run_calls debug_env sample_calls (valid_holder, valid_world) = Inr (valid_holder, ran_world)"
  by (simp add: sample_calls_def Launch_def IsValid_def valid_holder_def sample_shell_def
      sample_runners_def PostTask_def enqueue_def valid_world_def ran_world_def run_next_task_def
      pthread_setspecific_def setpriority_def debug_env_def emit_def and_then_def deref_def
      FXL_CHECK_def fun_eq_iff)

lemma run_task_on_dead_engine:
  assumes "\<not> weak_valid w engine"
  shows "run_task e tid (LaunchTask engine config) w = Inr w"
    and "run_task e tid (ViewportMetricsTask engine metrics) w = Inr w"
    and "run_task e tid (PointerDataPacketTask engine packet) w = Inr w"
  using assms by simp_all

lemma engine_dead_after_shell_reset:
  assumes "m_shell h = Some shell" and "Shell_GetEngine shell = Some a"
    and "a \<in> set (Shell_owned shell)"
  shows "\<not> weak_valid (snd (shell_reset (h, w))) (Shell_GetEngine shell)"
  using assms by (simp add: shell_reset_def Shell_destroy_def emit_def weak_valid_def)

lemma engine_alive_later:
  assumes ctor: "AndroidShellHolder e settings java_object w0 = Inr s0"
    and run: "run_calls e cs s0 = Inr (h, w)"
    and valid: "IsValid h"
    and later: "run_calls e cs' (h, enqueue UI t w) = Inr (h', w')"
  shows "weak_valid w' (Shell_GetEngine (the (m_shell h)))"
proof -
  from valid_after_run(1) [OF ctor run valid] obtain shell where sh: "m_shell h = Some shell"
    and eng: "Shell_GetEngine shell = Some (next_obj w0 + 2)"
    and alive: "heap w (next_obj w0 + 2) \<noteq> None"
    by blast
  from run_calls_frame [OF later] have "heap w' = heap w" by (simp add: enqueue_def)
  with sh eng alive show ?thesis by (simp add: weak_valid_def)
qed

lemma ctor_ignores_setpriority:
  "AndroidShellHolder (e\<lparr>setpriority_ok := answers\<rparr>) settings java_object w0 =
   AndroidShellHolder e settings java_object w0"
  by (simp add: ctor_defs Let_def)

section \<open>What the destructor does\<close>

lemma thread_exit_effect:
  "\<exists>evs. trace (thread_exit r w) = trace w @ evs \<and> filter is_teardown_step evs = [ThreadJoined r]"
  "keys (thread_exit r w) = keys w"
  "running (thread_exit r w) = running w - {r}"
  "heap (thread_exit r w) = heap w"
  by (auto simp: thread_exit_def ThreadDestructCallback_def emit_def Let_def split: option.splits)

lemma ThreadHost_Reset_effect:
  assumes "th = \<lparr>ui_thread = Some UI, gpu_thread = Some GPU, io_thread = Some IO\<rparr>"
  shows "\<exists>evs. trace (snd (ThreadHost_Reset th w)) = trace w @ evs
           \<and> filter is_teardown_step evs = [ThreadJoined UI, ThreadJoined GPU, ThreadJoined IO]"
    and "keys (snd (ThreadHost_Reset th w)) = keys w"
    and "running (snd (ThreadHost_Reset th w)) = running w - {UI, GPU, IO}"
    and "fst (ThreadHost_Reset th w) = \<lparr>ui_thread = None, gpu_thread = None, io_thread = None\<rparr>"
proof -
  let ?w1 = "thread_exit UI w"
  let ?w2 = "thread_exit GPU ?w1"
  let ?w3 = "thread_exit IO ?w2"
  have w3: "snd (ThreadHost_Reset th w) = ?w3"
    using assms by (simp add: ThreadHost_Reset_def join_thread_def)
  obtain e1 where e1: "trace ?w1 = trace w @ e1" "filter is_teardown_step e1 = [ThreadJoined UI]"
    using thread_exit_effect(1) [of UI w] by blast
  obtain e2 where e2: "trace ?w2 = trace ?w1 @ e2" "filter is_teardown_step e2 = [ThreadJoined GPU]"
    using thread_exit_effect(1) [of GPU ?w1] by blast
  obtain e3 where e3: "trace ?w3 = trace ?w2 @ e3" "filter is_teardown_step e3 = [ThreadJoined IO]"
    using thread_exit_effect(1) [of IO ?w2] by blast
  have "trace ?w3 = trace w @ (e1 @ e2 @ e3)" using e1 e2 e3 by simp
  moreover have "filter is_teardown_step (e1 @ e2 @ e3) = [ThreadJoined UI, ThreadJoined GPU, ThreadJoined IO]"
    using e1 e2 e3 by simp
  ultimately show "\<exists>evs. trace (snd (ThreadHost_Reset th w)) = trace w @ evs
           \<and> filter is_teardown_step evs = [ThreadJoined UI, ThreadJoined GPU, ThreadJoined IO]"
    unfolding w3 by blast
  show "keys (snd (ThreadHost_Reset th w)) = keys w"
    unfolding w3 by (simp add: thread_exit_effect)
  show "running (snd (ThreadHost_Reset th w)) = running w - {UI, GPU, IO}"
    unfolding w3 by (auto simp: thread_exit_effect)
  show "fst (ThreadHost_Reset th w) = \<lparr>ui_thread = None, gpu_thread = None, io_thread = None\<rparr>"
    by (simp add: ThreadHost_Reset_def)
qed

lemma shell_reset_effect:
  "fst (shell_reset (h, w)) = h\<lparr>m_shell := None\<rparr>"
  "trace (snd (shell_reset (h, w))) = trace w @ (if m_shell h = None then [] else [ShellDestroyed])"
  "keys (snd (shell_reset (h, w))) = keys w"
  "running (snd (shell_reset (h, w))) = running w"
  by (auto simp: shell_reset_def Shell_destroy_def emit_def split: option.splits)

lemma sample_teardown:
  "destructor debug_env (valid_holder, ran_world) = Inr (torn_holder, torn_world)"
  by (simp add: destructor_def shell_reset_def Shell_destroy_def thread_host_Reset_def
      ThreadHost_Reset_def join_thread_def thread_exit_def ThreadDestructCallback_def
      key_delete_def pthread_key_delete_def and_then_def FXL_CHECK_def emit_def Let_def
      valid_holder_def sample_shell_def ran_world_def valid_world_def torn_holder_def
      torn_world_def debug_env_def fun_eq_iff insert_Diff_if)

lemma GetPlatformView_eq:
  "GetPlatformView e (h, w) =
     (if dchecks_enabled e \<and> \<not> weak_valid w (m_platform_view h) then Inl DcheckFailed
      else Inr (m_platform_view h))"
  by (simp add: GetPlatformView_def FXL_DCHECK_def and_then_def)

lemma ctor_captures:
  "key_create_ok e \<Longrightarrow> assembly e = AssemblyOk \<or> \<not> dchecks_enabled e \<Longrightarrow>
   \<exists>h w. AndroidShellHolder e settings java_object w0 = Inr (h, w)
     \<and> m_platform_view h =
         (if assembly e = AssemblyFailsBeforePlatformView then None
          else snd (on_create_platform_view java_object sh (next_obj w0)))
     \<and> (if assembly e = AssemblyOk
         then m_shell h \<noteq> None
            \<and> heap w (next_obj w0) =
                Some (PlatformViewObject
                  (fst (on_create_platform_view java_object (the (m_shell h)) (next_obj w0))))
         else m_shell h = None)"
  by (cases "assembly e") (simp_all add: ctor_defs Let_def)

lemma ctor_captured:
  assumes "AndroidShellHolder e settings java_object w0 = Inr (h, w)"
  shows "m_platform_view h =
           (if assembly e = AssemblyFailsBeforePlatformView then None
            else snd (on_create_platform_view java_object sh (next_obj w0)))"
    and "assembly e = AssemblyOk \<Longrightarrow>
         heap w (next_obj w0) =
           Some (PlatformViewObject
             (fst (on_create_platform_view java_object (the (m_shell h)) (next_obj w0))))"
  using ctor_captures [OF ctor_facts(1,2) [OF assms], of settings java_object w0 sh] assms
  by auto

section \<open>The claims\<close>

text \<open>
  \<^bold>\<open>C1.\<close> On a holder whose \<open>IsValid\<close> is false, \<open>Launch\<close>, \<open>SetViewportMetrics\<close>,
  \<open>DispatchPointerDataPacket\<close> and \<open>Screenshot\<close> return with the holder and the whole
  world (every queue, the heap, the trace) exactly as they were, and so does every
  sequence of these four operations.
\<close>

theorem invalid_holder_operations_do_nothing:
  assumes "\<not> IsValid h"
  shows "Launch config (h, w) = Inr (h, w)
       \<and> SetViewportMetrics metrics (h, w) = Inr (h, w)
       \<and> DispatchPointerDataPacket packet (h, w) = Inr (h, w)
       \<and> Screenshot e type base64_encode (h, w) =
           Inr (\<lparr>data = None, frame_size = (0, 0)\<rparr>, (h, w))
       \<and> (list_all is_guarded_operation cs \<longrightarrow> run_calls e cs (h, w) = Inr (h, w))"
  using assms
  by (simp add: Launch_def SetViewportMetrics_def DispatchPointerDataPacket_def
      Screenshot_def guarded_calls_when_invalid)

theorem invalid_holder_operations_do_nothing_witness:
  "AndroidShellHolder release_env sample_settings 7 initial_world = Inr (invalid_holder, invalid_world)
   \<and> \<not> IsValid invalid_holder
   \<and> Launch sample_config (invalid_holder, invalid_world) = Inr (invalid_holder, invalid_world)
   \<and> SetViewportMetrics (ViewportMetrics [1080, 1920]) (invalid_holder, invalid_world)
       = Inr (invalid_holder, invalid_world)
   \<and> DispatchPointerDataPacket None (invalid_holder, invalid_world)
       = Inr (invalid_holder, invalid_world)
   \<and> Screenshot release_env CompressedImage True (invalid_holder, invalid_world)
       = Inr (\<lparr>data = None, frame_size = (0, 0)\<rparr>, (invalid_holder, invalid_world))
   \<and> list_all is_guarded_operation
        [CallLaunch sample_config, CallScreenshot CompressedImage True,
         CallDispatchPointerDataPacket None]
   \<and> run_calls release_env
        [CallLaunch sample_config, CallScreenshot CompressedImage True,
         CallDispatchPointerDataPacket None] (invalid_holder, invalid_world)
       = Inr (invalid_holder, invalid_world)"
proof -
  have inv: "\<not> IsValid invalid_holder" by (simp add: IsValid_def invalid_holder_def)
  have ops: "list_all is_guarded_operation
        [CallLaunch sample_config, CallScreenshot CompressedImage True,
         CallDispatchPointerDataPacket None]" by simp
  from invalid_holder_operations_do_nothing
         [OF inv, of sample_config invalid_world "ViewportMetrics [1080, 1920]" None release_env
            CompressedImage True
            "[CallLaunch sample_config, CallScreenshot CompressedImage True,
              CallDispatchPointerDataPacket None]"]
       inv ops ctor_release_env
  show ?thesis by blast
qed

text \<open>
  \<^bold>\<open>C2\<close> (as amended). The constructor posts the thread-exit task, which carries the
  holder's key, exactly once to the UI queue and exactly once to the GPU queue, and
  not at all to the IO queue. Run on a thread, the task stores a non-null value under
  the key for that thread, so that the key's destructor fires when the thread exits.
\<close>

theorem exit_task_goes_to_ui_and_gpu_only:
  assumes "AndroidShellHolder e settings java_object w0 = Inr (h, w)"
  shows "filter is_jni_exit_task (queues w UI) = [JniExitTask (m_thread_destruct_key h)]
       \<and> filter is_jni_exit_task (queues w GPU) = [JniExitTask (m_thread_destruct_key h)]
       \<and> filter is_jni_exit_task (queues w IO) = []
       \<and> io_thread (m_thread_host h) = Some IO
       \<and> run_task e' tid (JniExitTask key) w' =
           (if setspecific_ok e' \<and> key \<in> keys w'
            then Inr (w'\<lparr>specific := (specific w')(tid \<mapsto> key),
                         trace := trace w' @ [PthreadSetSpecific tid key]\<rparr>)
            else Inl CheckFailed)"
  using ctor_facts(3) [OF assms]
  by (simp add: ctor_post_def pthread_setspecific_def emit_def and_then_def FXL_CHECK_def)

theorem exit_task_goes_to_ui_and_gpu_only_witness:
  "AndroidShellHolder debug_env sample_settings 7 initial_world = Inr (valid_holder, valid_world)
   \<and> filter is_jni_exit_task (queues valid_world UI) = [JniExitTask 0]
   \<and> filter is_jni_exit_task (queues valid_world GPU) = [JniExitTask 0]
   \<and> filter is_jni_exit_task (queues valid_world IO) = []"
  using exit_task_goes_to_ui_and_gpu_only [OF ctor_debug_env] ctor_debug_env
  by (simp add: valid_holder_def)

text \<open>The IO thread is a worker of the thread host as well, it is running when the
  constructor returns, and its queue holds no thread-exit task.\<close>

theorem exit_task_on_every_worker_counterexample:
  "AndroidShellHolder debug_env sample_settings 7 initial_world = Inr (valid_holder, valid_world)
   \<and> io_thread (m_thread_host valid_holder) = Some IO
   \<and> IO \<in> running valid_world
   \<and> length (filter is_jni_exit_task (queues valid_world IO)) \<noteq> 1"
  using ctor_debug_env by (simp add: valid_holder_def valid_world_def)

text \<open>
  \<^bold>\<open>C3.\<close> After a successful construction, and whatever ran in between, \<open>Launch config\<close>
  on the valid holder appends one closure, which owns \<open>config\<close>, to the UI queue and
  changes nothing else. Whenever that closure runs later in the life of the holder,
  it calls the engine's \<open>Run\<close> once, with \<open>config\<close>, and logs if \<open>Run\<close> reports
  failure.
\<close>

theorem Launch_runs_the_engine_once:
  assumes "AndroidShellHolder e settings java_object w0 = Inr s0"
    and "run_calls e cs s0 = Inr (h, w)"
    and "IsValid h"
    and "run_calls e cs'
           (h, enqueue UI (LaunchTask (Shell_GetEngine (the (m_shell h))) config) w) = Inr (h', w')"
  shows "Launch config (h, w) =
           Inr (h, w\<lparr>queues := (queues w)
                     (UI := queues w UI @ [LaunchTask (Shell_GetEngine (the (m_shell h))) config])\<rparr>)
       \<and> run_task e UI (LaunchTask (Shell_GetEngine (the (m_shell h))) config) w' =
           Inr (w'\<lparr>trace := trace w' @ EngineRun config #
                     (if engine_run_ok e config then []
                      else [LogError ''Could not launch engine in configuration.''])\<rparr>)"
proof -
  from valid_after_run [OF assms(1-3)] obtain shell where sh: "m_shell h = Some shell"
    and ui: "GetUITaskRunner (Shell_GetTaskRunners shell) = UI"
    and run: "UI \<in> running w"
    by blast
  from engine_alive_later [OF assms]
  have alive: "weak_valid w' (Shell_GetEngine (the (m_shell h)))" .
  from guarded_operations_when_valid(1) [OF assms(3) sh ui run] sh alive
  show ?thesis by (simp add: enqueue_def Engine_Run_def emit_def)
qed

theorem Launch_runs_the_engine_once_witness:
  "AndroidShellHolder debug_env sample_settings 7 initial_world = Inr (valid_holder, valid_world)
   \<and> run_calls debug_env sample_calls (valid_holder, valid_world) = Inr (valid_holder, ran_world)
   \<and> IsValid valid_holder
   \<and> run_calls debug_env [] (valid_holder, enqueue UI (LaunchTask (Some 2) sample_config) ran_world)
       = Inr (valid_holder, enqueue UI (LaunchTask (Some 2) sample_config) ran_world)
   \<and> Launch sample_config (valid_holder, ran_world) =
       Inr (valid_holder,
            ran_world\<lparr>queues := (queues ran_world)
              (UI := queues ran_world UI @ [LaunchTask (Some 2) sample_config])\<rparr>)
   \<and> run_task debug_env UI (LaunchTask (Some 2) sample_config)
         (enqueue UI (LaunchTask (Some 2) sample_config) ran_world) =
       Inr ((enqueue UI (LaunchTask (Some 2) sample_config) ran_world)
              \<lparr>trace := trace (enqueue UI (LaunchTask (Some 2) sample_config) ran_world)
                           @ [EngineRun sample_config]\<rparr>)"
proof -
  have valid: "IsValid valid_holder" by (simp add: IsValid_def valid_holder_def)
  have shell: "Shell_GetEngine (the (m_shell valid_holder)) = Some 2"
    by (simp add: valid_holder_def sample_shell_def)
  have later: "run_calls debug_env []
      (valid_holder, enqueue UI (LaunchTask (Shell_GetEngine (the (m_shell valid_holder))) sample_config) ran_world)
     = Inr (valid_holder, enqueue UI (LaunchTask (Some 2) sample_config) ran_world)"
    by (simp add: shell)
  have ok: "engine_run_ok debug_env sample_config" by (simp add: debug_env_def)
  from Launch_runs_the_engine_once [OF ctor_debug_env sample_run valid later]
       ctor_debug_env sample_run valid ok
  show ?thesis unfolding shell by simp
qed

text \<open>
  \<^bold>\<open>C4.\<close> The constructor posts the two priority closures exactly when the shell was
  assembled. The GPU closure asks for priority -5; if and only if that is refused it
  asks once for -2; if that is refused too it logs and does nothing else. It never
  stops the process, the outcome of the construction does not depend on what the
  operating system answers, and the run of any closure leaves \<open>IsValid\<close> as it was.
\<close>

theorem gpu_priority_falls_back_once:
  assumes "AndroidShellHolder e settings java_object w0 = Inr (h, w)"
    and "run_calls e cs (h, w) = Inr (h', w')"
  shows "filter (\<lambda>t. t = GpuPriorityTask) (queues w GPU) =
           (if assembly e = AssemblyOk then [GpuPriorityTask] else [])
       \<and> filter (\<lambda>t. t = UiPriorityTask) (queues w UI) =
           (if assembly e = AssemblyOk then [UiPriorityTask] else [])
       \<and> run_task e tid GpuPriorityTask w2 =
           Inr (w2\<lparr>trace := trace w2 @ SetPriority tid (- 5) #
                  (if setpriority_ok e tid (- 5) then []
                   else SetPriority tid (- 2) #
                     (if setpriority_ok e tid (- 2) then []
                      else [LogError ''Failed to set GPU task runner priority'']))\<rparr>)
       \<and> AndroidShellHolder (e\<lparr>setpriority_ok := answers\<rparr>) settings java_object w0 = Inr (h, w)
       \<and> IsValid h = (assembly e = AssemblyOk)
       \<and> IsValid h' = IsValid h"
  using ctor_facts(3) [OF assms(1)] run_calls_frame [OF assms(2)] assms(1)
  by (simp add: ctor_post_def setpriority_def emit_def IsValid_def ctor_ignores_setpriority)

theorem gpu_priority_falls_back_once_witness:
  "AndroidShellHolder debug_env sample_settings 7 initial_world = Inr (valid_holder, valid_world)
   \<and> run_calls debug_env sample_calls (valid_holder, valid_world) = Inr (valid_holder, ran_world)
   \<and> filter (\<lambda>t. t = GpuPriorityTask) (queues valid_world GPU) = [GpuPriorityTask]
   \<and> run_task debug_env GPU GpuPriorityTask valid_world =
       Inr (valid_world\<lparr>trace := trace valid_world @
              [SetPriority GPU (- 5), SetPriority GPU (- 2),
               LogError ''Failed to set GPU task runner priority'']\<rparr>)
   \<and> IsValid valid_holder"
  using gpu_priority_falls_back_once [OF ctor_debug_env sample_run, of GPU valid_world]
    ctor_debug_env sample_run
  by (simp add: debug_env_def)

text \<open>
  \<^bold>\<open>C5.\<close> On an invalid holder \<open>Screenshot\<close> returns null image bytes and the empty
  size and leaves the world alone. On a valid holder it returns, in the same call,
  what the shell's own screenshot returns; the only change to the world is the mark of
  that call in the trace, and no queue receives a task.
\<close>

theorem Screenshot_is_synchronous:
  assumes "AndroidShellHolder e settings java_object w0 = Inr s0"
    and "run_calls e cs s0 = Inr (h, w)"
  shows "Screenshot e type base64_encode (h, w) =
           (if IsValid h
            then Inr (shell_screenshot e type base64_encode,
                      (h, w\<lparr>trace := trace w @ [ShellScreenshot type base64_encode]\<rparr>))
            else Inr (\<lparr>data = None, frame_size = (0, 0)\<rparr>, (h, w)))
       \<and> queues (w\<lparr>trace := trace w @ [ShellScreenshot type base64_encode]\<rparr>) = queues w"
proof (cases "IsValid h")
  case True
  from valid_after_run(1) [OF assms True] obtain shell where "m_shell h = Some shell" by blast
  with True show ?thesis
    by (simp add: Screenshot_def Shell_Screenshot_def emit_def and_then_def deref_def)
next
  case False
  then show ?thesis by (simp add: Screenshot_def)
qed

theorem Screenshot_is_synchronous_witness:
  "AndroidShellHolder debug_env sample_settings 7 initial_world = Inr (valid_holder, valid_world)
   \<and> run_calls debug_env sample_calls (valid_holder, valid_world) = Inr (valid_holder, ran_world)
   \<and> IsValid valid_holder
   \<and> Screenshot debug_env CompressedImage True (valid_holder, ran_world) =
       Inr (\<lparr>data = Some [137, 80], frame_size = (2, 1)\<rparr>,
            (valid_holder, ran_world\<lparr>trace := trace ran_world @ [ShellScreenshot CompressedImage True]\<rparr>))
   \<and> queues (ran_world\<lparr>trace := trace ran_world @ [ShellScreenshot CompressedImage True]\<rparr>)
       = queues ran_world"
  using Screenshot_is_synchronous [OF ctor_debug_env sample_run, of CompressedImage True]
    ctor_debug_env sample_run
  by (simp add: IsValid_def valid_holder_def debug_env_def)

text \<open>
  \<^bold>\<open>C6.\<close> The destructor of a constructed holder first releases the shell (the
  workers are all still running then), then stops and joins the UI, GPU and IO threads
  (the key still exists then), and last deletes the key: these marks, in this order,
  are what it adds to the trace, besides the detach calls of the exiting threads.
\<close>

theorem destructor_releases_in_order:
  assumes ctor: "AndroidShellHolder e settings java_object w0 = Inr s0"
    and run: "run_calls e cs s0 = Inr (h, w)"
    and dtor: "destructor e (h, w) = Inr (h', w')"
  shows "take (length (trace w)) (trace w') = trace w
       \<and> filter is_teardown_step (drop (length (trace w)) (trace w')) =
           (if IsValid h then [ShellDestroyed] else []) @
           [ThreadJoined UI, ThreadJoined GPU, ThreadJoined IO,
            PthreadKeyDelete (m_thread_destruct_key h)]
       \<and> m_shell h' = None
       \<and> m_thread_host h' = \<lparr>ui_thread = None, gpu_thread = None, io_thread = None\<rparr>
       \<and> running w' = running w - {UI, GPU, IO}
       \<and> keys w' = keys w - {m_thread_destruct_key h}
       \<and> running (snd (shell_reset (h, w))) = running w
       \<and> {UI, GPU, IO} \<subseteq> running w
       \<and> m_thread_destruct_key h \<in> keys (snd (thread_host_Reset (shell_reset (h, w))))
       \<and> key_delete_ok e"
proof -
  obtain h0 w1 where s0: "s0 = (h0, w1)" by (cases s0)
  note a = alive_after_run [OF ctor run]
  from a(1) s0 have post: "ctor_post e settings w0 (h0, w1)" by simp
  from a(2) s0 have h: "h = h0" by simp
  from post h have th: "m_thread_host h =
      \<lparr>ui_thread = Some UI, gpu_thread = Some GPU, io_thread = Some IO\<rparr>"
    by (simp add: ctor_post_def)
  from post h a(5) s0 have key: "m_thread_destruct_key h \<in> keys w"
    by (simp add: ctor_post_def)
  from post a(4) s0 have workers: "{UI, GPU, IO} \<subseteq> running w"
    by (simp add: ctor_post_def)
  from ctor_post_shell [OF post] h have valid: "IsValid h = (m_shell h \<noteq> None)"
    by (simp add: IsValid_def)
  define wa where "wa = snd (shell_reset (h, w))"
  define wb where "wb = snd (ThreadHost_Reset (m_thread_host h) wa)"
  have ta: "trace wa = trace w @ (if IsValid h then [ShellDestroyed] else [])"
    and ka: "keys wa = keys w" and ra: "running wa = running w"
    unfolding wa_def by (simp_all add: shell_reset_effect valid)
  obtain evs where tb: "trace wb = trace wa @ evs"
    and fb: "filter is_teardown_step evs = [ThreadJoined UI, ThreadJoined GPU, ThreadJoined IO]"
    using ThreadHost_Reset_effect(1) [OF th, of wa] unfolding wb_def by blast
  have kb: "keys wb = keys w" and rb: "running wb = running w - {UI, GPU, IO}"
    unfolding wb_def by (simp_all add: ThreadHost_Reset_effect(2,3) [OF th] ka ra)
  have s2: "thread_host_Reset (shell_reset (h, w)) =
      (h\<lparr>m_shell := None,
         m_thread_host := \<lparr>ui_thread = None, gpu_thread = None, io_thread = None\<rparr>\<rparr>, wb)"
    unfolding wb_def wa_def
    by (simp add: thread_host_Reset_def shell_reset_def ThreadHost_Reset_def split_beta)
  from dtor have kd: "key_delete e
      (h\<lparr>m_shell := None,
         m_thread_host := \<lparr>ui_thread = None, gpu_thread = None, io_thread = None\<rparr>\<rparr>, wb)
      = Inr (h', w')"
    by (simp add: destructor_def s2)
  from kd key kb have ok: "key_delete_ok e"
    by (auto simp: key_delete_def pthread_key_delete_def and_then_def FXL_CHECK_def
        split: if_splits)
  from kd key kb ok
  have h': "h' = h\<lparr>m_shell := None,
         m_thread_host := \<lparr>ui_thread = None, gpu_thread = None, io_thread = None\<rparr>\<rparr>"
    and w': "w' = wb\<lparr>keys := keys wb - {m_thread_destruct_key h},
                    trace := trace wb @ [PthreadKeyDelete (m_thread_destruct_key h)]\<rparr>"
    by (auto simp: key_delete_def pthread_key_delete_def and_then_def FXL_CHECK_def emit_def)
  have tw: "trace w' = trace w @ ((if IsValid h then [ShellDestroyed] else []) @ evs
              @ [PthreadKeyDelete (m_thread_destruct_key h)])"
    by (simp add: w' tb ta)
  have "take (length (trace w)) (trace w') = trace w" by (simp add: tw)
  moreover have "filter is_teardown_step (drop (length (trace w)) (trace w')) =
           (if IsValid h then [ShellDestroyed] else []) @
           [ThreadJoined UI, ThreadJoined GPU, ThreadJoined IO,
            PthreadKeyDelete (m_thread_destruct_key h)]"
    by (simp add: tw fb)
  moreover have "m_shell h' = None"
    and "m_thread_host h' = \<lparr>ui_thread = None, gpu_thread = None, io_thread = None\<rparr>"
    by (simp_all add: h')
  moreover have "running w' = running w - {UI, GPU, IO}"
    and "keys w' = keys w - {m_thread_destruct_key h}"
    by (simp_all add: w' rb kb)
  moreover have "running (snd (shell_reset (h, w))) = running w"
    by (simp add: shell_reset_effect)
  moreover have "m_thread_destruct_key h \<in> keys (snd (thread_host_Reset (shell_reset (h, w))))"
    by (simp add: s2 kb key)
  ultimately show ?thesis using workers ok by blast
qed

theorem destructor_releases_in_order_witness:
  "AndroidShellHolder debug_env sample_settings 7 initial_world = Inr (valid_holder, valid_world)
   \<and> run_calls debug_env sample_calls (valid_holder, valid_world) = Inr (valid_holder, ran_world)
   \<and> destructor debug_env (valid_holder, ran_world) = Inr (torn_holder, torn_world)
   \<and> filter is_teardown_step (drop (length (trace ran_world)) (trace torn_world)) =
       [ShellDestroyed, ThreadJoined UI, ThreadJoined GPU, ThreadJoined IO, PthreadKeyDelete 0]
   \<and> m_shell torn_holder = None
   \<and> keys torn_world = keys ran_world - {0}"
proof -
  have valid: "IsValid valid_holder" and key: "m_thread_destruct_key valid_holder = 0"
    by (simp_all add: IsValid_def valid_holder_def)
  from destructor_releases_in_order [OF ctor_debug_env sample_run sample_teardown]
       ctor_debug_env sample_run sample_teardown valid key
  show ?thesis by simp
qed

text \<open>
  \<^bold>\<open>C7.\<close> The flag behind \<open>IsValid\<close> is written by the constructor, as "the shell is
  not null", which is the case exactly when the assembly succeeded; no later call of
  the host and no posted closure changes it.
\<close>

theorem validity_is_fixed_by_construction:
  assumes "AndroidShellHolder e settings java_object w0 = Inr (h0, w1)"
    and "run_calls e cs (h0, w1) = Inr (h, w)"
  shows "IsValid h0 = (m_shell h0 \<noteq> None)
       \<and> (m_shell h0 \<noteq> None) = (assembly e = AssemblyOk)
       \<and> IsValid h = IsValid h0"
  using ctor_post_shell [OF ctor_facts(3) [OF assms(1)]] run_calls_frame [OF assms(2)]
  by (simp add: IsValid_def)

theorem validity_is_fixed_by_construction_witness:
  "AndroidShellHolder debug_env sample_settings 7 initial_world = Inr (valid_holder, valid_world)
   \<and> run_calls debug_env sample_calls (valid_holder, valid_world) = Inr (valid_holder, ran_world)
   \<and> IsValid valid_holder
   \<and> m_shell valid_holder \<noteq> None
   \<and> assembly debug_env = AssemblyOk"
  using validity_is_fixed_by_construction [OF ctor_debug_env sample_run] ctor_debug_env sample_run
  by (simp add: valid_holder_def debug_env_def IsValid_def)

text \<open>
  \<^bold>\<open>C8\<close> (as amended). \<open>GetPlatformView\<close> returns the weak handle the constructor
  stored: the handle the platform view callback captured, or the empty handle when
  the callback never ran. In a build with assertions it stops the process when that
  handle is empty. The handle is live, so that the assertion holds, exactly when the
  construction succeeded, and then in every state the holder reaches; a build with
  assertions lets the constructor return in that case only. A handle captured in an
  assembly that failed afterwards is empty.
\<close>

theorem GetPlatformView_handle_is_live_iff_valid:
  assumes "AndroidShellHolder e settings java_object w0 = Inr (h0, w1)"
    and "run_calls e cs (h0, w1) = Inr (h, w)"
  shows "m_platform_view h0 =
           (if assembly e = AssemblyFailsBeforePlatformView then None
            else snd (on_create_platform_view java_object sh (next_obj w0)))
       \<and> GetPlatformView e (h, w) = Inr (m_platform_view h0)
       \<and> weak_valid w (m_platform_view h0) = IsValid h0
       \<and> (IsValid h0 \<longrightarrow>
            heap w (next_obj w0) =
              Some (PlatformViewObject
                (fst (on_create_platform_view java_object (the (m_shell h0)) (next_obj w0)))))
       \<and> (dchecks_enabled e \<longrightarrow> IsValid h0)
       \<and> GetPlatformView e (h2, w2) =
           (if dchecks_enabled e \<and> \<not> weak_valid w2 (m_platform_view h2) then Inl DcheckFailed
            else Inr (m_platform_view h2))"
proof -
  note post = ctor_facts(3) [OF assms(1)]
  note frame = run_calls_frame [OF assms(2)]
  have valid: "IsValid h0 = (assembly e = AssemblyOk)"
    using post by (simp add: ctor_post_def IsValid_def)
  have live1: "weak_valid w1 (m_platform_view h0) = IsValid h0"
    using post valid by (cases "m_shell h0") (auto simp: ctor_post_def weak_valid_def)
  have live: "weak_valid w (m_platform_view h0) = IsValid h0"
    using live1 frame by (simp add: weak_valid_def split: option.splits)
  have checked: "dchecks_enabled e \<longrightarrow> IsValid h0"
    using ctor_facts(2) [OF assms(1)] valid by blast
  have target: "IsValid h0 \<longrightarrow>
            heap w (next_obj w0) =
              Some (PlatformViewObject
                (fst (on_create_platform_view java_object (the (m_shell h0)) (next_obj w0))))"
    using ctor_captured(2) [OF assms(1)] valid frame by simp
  have returned: "GetPlatformView e (h, w) = Inr (m_platform_view h0)"
    using live checked frame by (simp add: GetPlatformView_eq)
  from ctor_captured(1) [OF assms(1), of sh] returned live target checked
  show ?thesis by (simp add: GetPlatformView_eq)
qed

theorem GetPlatformView_handle_is_live_iff_valid_witness:
  "AndroidShellHolder debug_env sample_settings 7 initial_world = Inr (valid_holder, valid_world)
   \<and> run_calls debug_env sample_calls (valid_holder, valid_world) = Inr (valid_holder, ran_world)
   \<and> IsValid valid_holder
   \<and> dchecks_enabled debug_env
   \<and> m_platform_view valid_holder = snd (on_create_platform_view 7 sample_shell 0)
   \<and> weak_valid ran_world (m_platform_view valid_holder)
   \<and> heap ran_world 0 = Some (PlatformViewObject (fst (on_create_platform_view 7 sample_shell 0)))
   \<and> GetPlatformView debug_env (valid_holder, ran_world) = Inr (Some 0)
   \<and> \<not> weak_valid (snd (shell_reset (valid_holder, ran_world)))
         (m_platform_view (fst (shell_reset (valid_holder, ran_world))))
   \<and> GetPlatformView debug_env (shell_reset (valid_holder, ran_world)) = Inl DcheckFailed"
proof -
  have valid: "IsValid valid_holder" and pv: "m_platform_view valid_holder = Some 0"
    and sh: "the (m_shell valid_holder) = sample_shell"
    by (simp_all add: IsValid_def valid_holder_def)
  have dbg: "dchecks_enabled debug_env" and ok: "assembly debug_env = AssemblyOk"
    by (simp_all add: debug_env_def)
  have start: "next_obj initial_world = 0" by (simp add: initial_world_def)
  have dead: "\<not> weak_valid (snd (shell_reset (valid_holder, ran_world)))
         (m_platform_view (fst (shell_reset (valid_holder, ran_world))))"
    by (simp add: shell_reset_def Shell_destroy_def emit_def weak_valid_def valid_holder_def
        sample_shell_def)
  from GetPlatformView_handle_is_live_iff_valid
         [OF ctor_debug_env sample_run, of sample_shell
            "fst (shell_reset (valid_holder, ran_world))"
            "snd (shell_reset (valid_holder, ran_world))"]
       ctor_debug_env sample_run valid dbg ok dead
  show ?thesis by (simp add: pv sh start on_create_platform_view_def)
qed

text \<open>In a release build whose assembly fails after the platform view callback has
  run, the constructor returns a holder that stores the handle the callback captured;
  that handle is empty, and \<open>GetPlatformView\<close> returns it without any assertion.\<close>

theorem captured_handle_can_be_empty_counterexample:
  "AndroidShellHolder release_env sample_settings 7 initial_world = Inr (invalid_holder, invalid_world)
   \<and> assembly release_env = AssemblyFailsAfterPlatformView
   \<and> m_platform_view invalid_holder =
       snd (on_create_platform_view 7
              \<lparr>Shell_GetTaskRunners = sample_runners, Shell_GetSettings = sample_settings,
               Shell_GetEngine = None, Shell_owned = []\<rparr> 0)
   \<and> m_platform_view invalid_holder \<noteq> None
   \<and> \<not> weak_valid invalid_world (m_platform_view invalid_holder)
   \<and> GetPlatformView release_env (invalid_holder, invalid_world) = Inr (m_platform_view invalid_holder)
   \<and> run_calls release_env [CallGetPlatformView] (invalid_holder, invalid_world)
       = Inr (invalid_holder, invalid_world)"
  using ctor_release_env
  by (simp add: release_env_def invalid_holder_def invalid_world_def weak_valid_def
      on_create_platform_view_def GetPlatformView_eq and_then_def)

text \<open>
  \<^bold>\<open>C9.\<close> On a valid holder each of \<open>Launch\<close>, \<open>SetViewportMetrics\<close> and
  \<open>DispatchPointerDataPacket\<close> posts to the UI queue a closure that captures the
  shell's weak engine handle. A closure that finds this handle empty when it runs
  returns with the world unchanged: it calls nothing on the engine (and does not even
  look at its packet). The handle is empty as soon as the shell has been released.
\<close>

theorem posted_closures_check_the_engine:
  assumes "AndroidShellHolder e settings java_object w0 = Inr s0"
    and "run_calls e cs s0 = Inr (h, w)"
    and "IsValid h"
  shows "m_shell h \<noteq> None
       \<and> Launch config (h, w) =
           Inr (h, enqueue UI (LaunchTask (Shell_GetEngine (the (m_shell h))) config) w)
       \<and> SetViewportMetrics metrics (h, w) =
           Inr (h, enqueue UI (ViewportMetricsTask (Shell_GetEngine (the (m_shell h))) metrics) w)
       \<and> DispatchPointerDataPacket packet (h, w) =
           Inr (h, enqueue UI (PointerDataPacketTask (Shell_GetEngine (the (m_shell h))) packet) w)
       \<and> (\<not> weak_valid w' (Shell_GetEngine (the (m_shell h))) \<longrightarrow>
            run_task e tid (LaunchTask (Shell_GetEngine (the (m_shell h))) config) w' = Inr w'
          \<and> run_task e tid (ViewportMetricsTask (Shell_GetEngine (the (m_shell h))) metrics) w' = Inr w'
          \<and> run_task e tid (PointerDataPacketTask (Shell_GetEngine (the (m_shell h))) packet) w' = Inr w')
       \<and> \<not> weak_valid (snd (shell_reset (h, w))) (Shell_GetEngine (the (m_shell h)))"
proof -
  from valid_after_run [OF assms] obtain shell where sh: "m_shell h = Some shell"
    and ui: "GetUITaskRunner (Shell_GetTaskRunners shell) = UI"
    and eng: "Shell_GetEngine shell = Some (next_obj w0 + 2)"
    and own: "Shell_owned shell = [next_obj w0, next_obj w0 + 1, next_obj w0 + 2]"
    and run: "UI \<in> running w"
    by blast
  from own have "next_obj w0 + 2 \<in> set (Shell_owned shell)" by simp
  from engine_dead_after_shell_reset [OF sh eng this]
  have dead: "\<not> weak_valid (snd (shell_reset (h, w))) (Shell_GetEngine shell)" .
  from guarded_operations_when_valid [OF assms(3) sh ui run] sh dead
  show ?thesis by (simp add: run_task_on_dead_engine)
qed

theorem posted_closures_check_the_engine_witness:
  "AndroidShellHolder debug_env sample_settings 7 initial_world = Inr (valid_holder, valid_world)
   \<and> run_calls debug_env sample_calls (valid_holder, valid_world) = Inr (valid_holder, ran_world)
   \<and> IsValid valid_holder
   \<and> Launch sample_config (valid_holder, ran_world) =
       Inr (valid_holder, enqueue UI (LaunchTask (Some 2) sample_config) ran_world)
   \<and> \<not> weak_valid (snd (shell_reset (valid_holder, ran_world))) (Some 2)
   \<and> run_task debug_env UI (LaunchTask (Some 2) sample_config)
         (snd (shell_reset (valid_holder, ran_world)))
       = Inr (snd (shell_reset (valid_holder, ran_world)))
   \<and> run_task debug_env UI (PointerDataPacketTask (Some 2) None)
         (snd (shell_reset (valid_holder, ran_world)))
       = Inr (snd (shell_reset (valid_holder, ran_world)))"
proof -
  have valid: "IsValid valid_holder" by (simp add: IsValid_def valid_holder_def)
  have shell: "Shell_GetEngine (the (m_shell valid_holder)) = Some 2"
    by (simp add: valid_holder_def sample_shell_def)
  from posted_closures_check_the_engine
         [OF ctor_debug_env sample_run valid, of sample_config "ViewportMetrics []" None
            "snd (shell_reset (valid_holder, ran_world))" UI]
       ctor_debug_env sample_run valid
  show ?thesis unfolding shell by blast
qed

text \<open>
  \<^bold>\<open>C10.\<close> On a valid holder \<open>DispatchPointerDataPacket\<close> posts its closure for every
  packet, null or not: nothing at the interface looks at the packet. When the closure
  runs while the engine is alive it dereferences the packet: a packet that is not
  null reaches the engine, a null packet is a null dereference.
\<close>

theorem pointer_packet_must_not_be_null:
  assumes "AndroidShellHolder e settings java_object w0 = Inr s0"
    and "run_calls e cs s0 = Inr (h, w)"
    and "IsValid h"
    and "run_calls e cs'
           (h, enqueue UI (PointerDataPacketTask (Shell_GetEngine (the (m_shell h))) packet) w)
         = Inr (h', w')"
  shows "DispatchPointerDataPacket packet (h, w) =
           Inr (h, enqueue UI (PointerDataPacketTask (Shell_GetEngine (the (m_shell h))) packet) w)
       \<and> run_task e UI (PointerDataPacketTask (Shell_GetEngine (the (m_shell h))) packet) w' =
           (case packet of
              None \<Rightarrow> Inl NullDereference
            | Some p \<Rightarrow> Inr (w'\<lparr>trace := trace w' @ [EngineDispatchPointerDataPacket p]\<rparr>))"
proof -
  from valid_after_run [OF assms(1-3)] obtain shell where sh: "m_shell h = Some shell"
    and ui: "GetUITaskRunner (Shell_GetTaskRunners shell) = UI"
    and run: "UI \<in> running w"
    by blast
  from engine_alive_later [OF assms]
  have alive: "weak_valid w' (Shell_GetEngine (the (m_shell h)))" .
  from guarded_operations_when_valid(3) [OF assms(3) sh ui run] sh alive
  show ?thesis
    by (simp add: Engine_DispatchPointerDataPacket_def emit_def and_then_def deref_def
        split: option.splits)
qed

theorem pointer_packet_must_not_be_null_witness:
  "AndroidShellHolder debug_env sample_settings 7 initial_world = Inr (valid_holder, valid_world)
   \<and> run_calls debug_env sample_calls (valid_holder, valid_world) = Inr (valid_holder, ran_world)
   \<and> IsValid valid_holder
   \<and> DispatchPointerDataPacket (Some (PointerDataPacket [1, 2, 3])) (valid_holder, ran_world) =
       Inr (valid_holder,
            enqueue UI (PointerDataPacketTask (Some 2) (Some (PointerDataPacket [1, 2, 3]))) ran_world)
   \<and> run_task debug_env UI (PointerDataPacketTask (Some 2) (Some (PointerDataPacket [1, 2, 3])))
         (enqueue UI (PointerDataPacketTask (Some 2) (Some (PointerDataPacket [1, 2, 3]))) ran_world) =
       Inr ((enqueue UI (PointerDataPacketTask (Some 2) (Some (PointerDataPacket [1, 2, 3]))) ran_world)
              \<lparr>trace := trace (enqueue UI
                             (PointerDataPacketTask (Some 2) (Some (PointerDataPacket [1, 2, 3]))) ran_world)
                           @ [EngineDispatchPointerDataPacket (PointerDataPacket [1, 2, 3])]\<rparr>)
   \<and> DispatchPointerDataPacket None (valid_holder, ran_world) =
       Inr (valid_holder, enqueue UI (PointerDataPacketTask (Some 2) None) ran_world)
   \<and> run_task debug_env UI (PointerDataPacketTask (Some 2) None)
         (enqueue UI (PointerDataPacketTask (Some 2) None) ran_world) = Inl NullDereference"
proof -
  have valid: "IsValid valid_holder" by (simp add: IsValid_def valid_holder_def)
  have shell: "Shell_GetEngine (the (m_shell valid_holder)) = Some 2"
    by (simp add: valid_holder_def sample_shell_def)
  have later: "run_calls debug_env []
      (valid_holder, enqueue UI (PointerDataPacketTask (Shell_GetEngine (the (m_shell valid_holder))) p) ran_world)
     = Inr (valid_holder, enqueue UI (PointerDataPacketTask (Some 2) p) ran_world)" for p
    by (simp add: shell)
  from pointer_packet_must_not_be_null [OF ctor_debug_env sample_run valid later]
       pointer_packet_must_not_be_null [OF ctor_debug_env sample_run valid later, of None]
       ctor_debug_env sample_run valid
  show ?thesis unfolding shell by simp
qed

end
